theory Spec2Isabelle
  imports Main
begin

section \<open>Values exchanged with the collaborators\<close>

text \<open>
  The handlers of \<^verbatim>\<open>controllers/sessionController.js\<close> send flat JSON objects whose
  fields are booleans or strings. An object is kept as the list of its fields in the order
  the source writes them.
\<close>

datatype jvalue = JBool bool | JString string

type_synonym json = "(string \<times> jvalue) list"

text \<open>
  A call either returns a value or throws; an awaited promise either resolves or rejects.
  JavaScript lets any value be thrown. The catch blocks of the handlers read
  \<^verbatim>\<open>.message\<close> of what they caught: an \<^verbatim>\<open>Error\<close> object carries a message,
  while on \<^verbatim>\<open>null\<close> and on \<^verbatim>\<open>undefined\<close> (a promise rejected without a
  reason) the read itself raises a \<^verbatim>\<open>TypeError\<close>. Thrown values of other kinds
  (a string, a number), on which the read gives \<^verbatim>\<open>undefined\<close>, are not part of
  the model.
\<close>

datatype thrown = Error string | Null | Undefined

datatype 'a outcome = Returns 'a | Throws thrown

text \<open>A call that threw, or a promise that was rejected, with \<^verbatim>\<open>null\<close> or \<^verbatim>\<open>undefined\<close>.\<close>

definition rejects_nullish :: "'a outcome \<Rightarrow> bool" where
  "rejects_nullish r = (r = Throws Null \<or> r = Throws Undefined)"

text \<open>The expression \<^verbatim>\<open>error.message\<close>.\<close>

fun message_read :: "thrown \<Rightarrow> string outcome" where
  "message_read (Error msg) = Returns msg"
| "message_read Null =
     Throws (Error ''Cannot read properties of null (reading 'message')'')"
| "message_read Undefined =
     Throws (Error ''Cannot read properties of undefined (reading 'message')'')"

type_synonym client = nat

text \<open>An entry of the \<^verbatim>\<open>sessions\<close> map; \<^verbatim>\<open>qr\<close> is the optional string field.\<close>

record session =
  qr :: "string option"

type_synonym registry = "string \<rightharpoonup> session"

text \<open>The object returned by \<^verbatim>\<open>setupSession\<close>: \<^verbatim>\<open>{success, message, client?}\<close>.\<close>

record setup_return =
  success :: bool
  message :: string
  client :: "client option"

section \<open>The response object\<close>

text \<open>
  Modelled from the spec: the request/response abstraction is supplied externally
  (Express on top of Node's \<^verbatim>\<open>http.ServerResponse\<close>); the spec asks of it a
  headers-sent flag, the ability to write status and body once, and the ability to stream
  bytes. The record keeps the three fields the handlers read or set, and a log of every
  call a handler makes on the object, each entry paired with the value of
  \<^verbatim>\<open>headersSent\<close> at the moment of the call. An entry whose flag is
  \<open>False\<close> is a write that reached the transport; a call made when the headers are
  already sent raises \<^verbatim>\<open>ERR_HTTP_HEADERS_SENT\<close> and reaches nothing.
\<close>

datatype call =
    Json nat json
  | WriteHead nat "(string \<times> string) list"
  | Pipe string
  | End

record response =
  statusCode :: nat
  headersSent :: bool
  writableEnded :: bool
  calls :: "(bool \<times> call) list"

definition fresh_response :: response where
  "fresh_response =
     \<lparr>statusCode = 200, headersSent = False, writableEnded = False, calls = []\<rparr>"

definition ERR_HTTP_HEADERS_SENT :: string where
  "ERR_HTTP_HEADERS_SENT = ''Cannot set headers after they are sent to the client''"

text \<open>\<^verbatim>\<open>res.status(code)\<close>\<close>

definition status_set :: "nat \<Rightarrow> response \<Rightarrow> response" where
  "status_set code r = r\<lparr>statusCode := code\<rparr>"

text \<open>\<^verbatim>\<open>res.json(body)\<close>: status line, headers and body in one terminal write.\<close>

definition json_send :: "json \<Rightarrow> response \<Rightarrow> unit outcome \<times> response" where
  "json_send body r =
     (if headersSent r
      then (Throws (Error ERR_HTTP_HEADERS_SENT),
            r\<lparr>calls := calls r @ [(True, Json (statusCode r) body)]\<rparr>)
      else (Returns (),
            r\<lparr>headersSent := True, writableEnded := True,
              calls := calls r @ [(False, Json (statusCode r) body)]\<rparr>))"

text \<open>\<^verbatim>\<open>res.writeHead(code, headers)\<close>: sends the headers immediately.\<close>

definition writeHead_send ::
  "nat \<Rightarrow> (string \<times> string) list \<Rightarrow> response \<Rightarrow> unit outcome \<times> response" where
  "writeHead_send code hdrs r =
     (if headersSent r
      then (Throws (Error ERR_HTTP_HEADERS_SENT),
            r\<lparr>calls := calls r @ [(True, WriteHead code hdrs)]\<rparr>)
      else (Returns (),
            r\<lparr>statusCode := code, headersSent := True,
              calls := calls r @ [(False, WriteHead code hdrs)]\<rparr>))"

text \<open>\<^verbatim>\<open>res.end()\<close>\<close>

definition end_send :: "response \<Rightarrow> unit outcome \<times> response" where
  "end_send r =
     (Returns (),
      r\<lparr>headersSent := True, writableEnded := True,
        calls := calls r @ [(headersSent r, End)]\<rparr>)"

text \<open>
  \<^verbatim>\<open>qrImage.pipe(res)\<close>. The call returns at once and the bytes follow, or the
  stream machinery raises; in the second case the flag says whether the response stream
  had been ended by then.
\<close>

datatype pipe_result = Streaming | Broken string bool

definition pipe_send :: "pipe_result \<Rightarrow> string \<Rightarrow> response \<Rightarrow> unit outcome \<times> response" where
  "pipe_send how img r =
     (case how of
        Streaming \<Rightarrow>
          (Returns (), r\<lparr>calls := calls r @ [(headersSent r, Pipe img)]\<rparr>)
      | Broken msg ended \<Rightarrow>
          (Throws (Error msg),
           r\<lparr>writableEnded := ended, calls := calls r @ [(headersSent r, Pipe img)]\<rparr>))"

text \<open>
  What another party does to the response while a handler is suspended in an
  \<^verbatim>\<open>await\<close>: it completes a response of its own. The handlers guard against
  exactly this (\<^verbatim>\<open>startSession\<close>: ``We must ensure headers haven't been sent by any
  other concurrent logic'').
\<close>

definition committed_elsewhere :: "response \<Rightarrow> response" where
  "committed_elsewhere r = r\<lparr>headersSent := True, writableEnded := True\<rparr>"

section \<open>The collaborators and the state of one request\<close>

text \<open>
  The functions imported from \<^verbatim>\<open>../sessions\<close>, \<^verbatim>\<open>../utils\<close> and
  \<^verbatim>\<open>qr-image\<close> are parameters of the model. An awaited collaborator settles with an
  outcome, leaves the registry in some state, and the response may have been committed by
  another party in the meantime.
\<close>

record 'a awaited =
  settled :: "'a outcome"
  sessions_after :: registry
  raced :: bool

record env =
  setupSession :: "string \<Rightarrow> registry \<Rightarrow> setup_return outcome \<times> registry"
  waitForNestedObject :: "client option \<Rightarrow> string \<Rightarrow> registry \<Rightarrow> unit awaited"
  validateSession :: "string \<Rightarrow> registry \<Rightarrow> json awaited"
  reloadSession :: "string \<Rightarrow> registry \<Rightarrow> unit awaited"
  deleteSession :: "string \<Rightarrow> json \<Rightarrow> registry \<Rightarrow> unit awaited"
  flushSessions :: "bool \<Rightarrow> registry \<Rightarrow> unit awaited"
  qr_image :: "string \<Rightarrow> string \<Rightarrow> string outcome"
  qr_pipe :: "string \<Rightarrow> pipe_result"

datatype invocation =
    SetupSession string
  | WaitForNestedObject "client option" string
  | ValidateSession string
  | ReloadSession string
  | DeleteSession string json
  | FlushSessions bool
  | QrImage string string

text \<open>
  The state a handler runs in: the \<^verbatim>\<open>sessions\<close> map, the response object
  \<^verbatim>\<open>res\<close>, and the list of collaborator calls made so far.
\<close>

record state =
  sessions :: registry
  res :: response
  invoked :: "invocation list"

section \<open>Control flow\<close>

definition resolved :: "'s \<Rightarrow> unit outcome \<times> 's" where
  "resolved s = (Returns (), s)"

definition then_do ::
  "('s \<Rightarrow> 'a outcome \<times> 's) \<Rightarrow> ('a \<Rightarrow> 's \<Rightarrow> 'b outcome \<times> 's) \<Rightarrow> 's \<Rightarrow> 'b outcome \<times> 's" where
  "then_do m k s =
     (case m s of (Returns v, s') \<Rightarrow> k v s' | (Throws e, s') \<Rightarrow> (Throws e, s'))"

definition try_catch ::
  "('s \<Rightarrow> 'a outcome \<times> 's) \<Rightarrow> (thrown \<Rightarrow> 's \<Rightarrow> 'a outcome \<times> 's) \<Rightarrow> 's \<Rightarrow> 'a outcome \<times> 's" where
  "try_catch body handler s =
     (case body s of (Returns v, s') \<Rightarrow> (Returns v, s') | (Throws e, s') \<Rightarrow> handler e s')"

definition on_res ::
  "(response \<Rightarrow> 'a outcome \<times> response) \<Rightarrow> 'z state_scheme \<Rightarrow> 'a outcome \<times> 'z state_scheme" where
  "on_res f s = (case f (res s) of (v, r) \<Rightarrow> (v, s\<lparr>res := r\<rparr>))"

definition res_json :: "json \<Rightarrow> 'z state_scheme \<Rightarrow> unit outcome \<times> 'z state_scheme" where
  "res_json body = on_res (json_send body)"

definition res_status_json ::
  "nat \<Rightarrow> json \<Rightarrow> 'z state_scheme \<Rightarrow> unit outcome \<times> 'z state_scheme" where
  "res_status_json code body = on_res (\<lambda>r. json_send body (status_set code r))"

definition res_writeHead ::
  "nat \<Rightarrow> (string \<times> string) list \<Rightarrow> 'z state_scheme \<Rightarrow> unit outcome \<times> 'z state_scheme" where
  "res_writeHead code hdrs = on_res (writeHead_send code hdrs)"

definition res_end :: "'z state_scheme \<Rightarrow> unit outcome \<times> 'z state_scheme" where
  "res_end = on_res end_send"

definition res_pipe :: "env \<Rightarrow> string \<Rightarrow> 'z state_scheme \<Rightarrow> unit outcome \<times> 'z state_scheme" where
  "res_pipe env img = on_res (pipe_send (qr_pipe env img) img)"

text \<open>
  Modelled from the spec: \<^verbatim>\<open>sendErrorResponse\<close> of \<^verbatim>\<open>../utils\<close>, which is not
  among the sources. The spec gives the error body shape
  \<^verbatim>\<open>{success:false, message:<string>}\<close> with a status code chosen by the caller.
\<close>

definition error_payload :: "string \<Rightarrow> json" where
  "error_payload msg = [(''success'', JBool False), (''message'', JString msg)]"

definition sendErrorResponse ::
  "nat \<Rightarrow> string \<Rightarrow> 'z state_scheme \<Rightarrow> unit outcome \<times> 'z state_scheme" where
  "sendErrorResponse code msg = res_status_json code (error_payload msg)"

text \<open>A synchronous call of \<^verbatim>\<open>setupSession(sessionId)\<close>.\<close>

definition call_setupSession ::
  "env \<Rightarrow> string \<Rightarrow> 'z state_scheme \<Rightarrow> setup_return outcome \<times> 'z state_scheme" where
  "call_setupSession env sessionId s =
     (case setupSession env sessionId (sessions s) of
        (v, reg) \<Rightarrow>
          (v, s\<lparr>sessions := reg, invoked := invoked s @ [SetupSession sessionId]\<rparr>))"

text \<open>A call of \<^verbatim>\<open>qr.image(text, {type})\<close>; the library's default type is png.\<close>

definition call_qr_image ::
  "env \<Rightarrow> string \<Rightarrow> string \<Rightarrow> 'z state_scheme \<Rightarrow> string outcome \<times> 'z state_scheme" where
  "call_qr_image env str ty s =
     (qr_image env str ty, s\<lparr>invoked := invoked s @ [QrImage str ty]\<rparr>)"

text \<open>\<^verbatim>\<open>await p\<close>, where \<open>what\<close> names the collaborator call that made the promise.\<close>

definition await ::
  "invocation \<Rightarrow> (registry \<Rightarrow> 'a awaited) \<Rightarrow> 'z state_scheme \<Rightarrow> 'a outcome \<times> 'z state_scheme" where
  "await what p s =
     (let a = p (sessions s) in
      (settled a,
       s\<lparr>sessions := sessions_after a,
         res := (if raced a then committed_elsewhere (res s) else res s),
         invoked := invoked s @ [what]\<rparr>))"

text \<open>\<^verbatim>\<open>throw new Error(msg)\<close>\<close>

definition throw :: "string \<Rightarrow> 's \<Rightarrow> 'a outcome \<times> 's" where
  "throw msg s = (Throws (Error msg), s)"

text \<open>Reading \<^verbatim>\<open>error.message\<close> in the state \<open>s\<close>.\<close>

definition message_of :: "thrown \<Rightarrow> 's \<Rightarrow> string outcome \<times> 's" where
  "message_of error s = (message_read error, s)"

section \<open>The handlers of controllers/sessionController.js\<close>

text \<open>
  The \<^verbatim>\<open>console\<close> calls of the handlers do not touch the response and are left out,
  except for what they evaluate: a template that interpolates \<^verbatim>\<open>error.message\<close>
  reads the property, and the read is kept at its place. Where a catch block passes the
  caught value itself to \<^verbatim>\<open>console.log\<close>, nothing is read.
\<close>

definition startSession :: "env \<Rightarrow> string \<Rightarrow> state \<Rightarrow> unit outcome \<times> state" where
  "startSession env sessionId =
     try_catch
       (then_do (call_setupSession env sessionId) (\<lambda>setupSessionReturn.
          if \<not> success setupSessionReturn
          then sendErrorResponse 422 (message setupSessionReturn)
          else
            try_catch
              (then_do
                 (await (WaitForNestedObject (client setupSessionReturn) ''pupPage'')
                    (waitForNestedObject env (client setupSessionReturn) ''pupPage''))
                 (\<lambda>_ s.
                    if \<not> headersSent (res s)
                    then res_json [(''success'', JBool True),
                                   (''message'', JString (message setupSessionReturn))] s
                    else resolved s))
              (\<lambda>waitError.
                 then_do (message_of waitError) (\<lambda>msg s.
                   if \<not> headersSent (res s)
                   then sendErrorResponse 500 msg s
                   else resolved s))))
       (\<lambda>error s.
          if \<not> headersSent (res s)
          then then_do (message_of error) (\<lambda>msg. sendErrorResponse 500 msg) s
          else resolved s)"

definition statusSession :: "env \<Rightarrow> string \<Rightarrow> state \<Rightarrow> unit outcome \<times> state" where
  "statusSession env sessionId =
     try_catch
       (then_do (await (ValidateSession sessionId) (validateSession env sessionId))
          (\<lambda>sessionData s.
             if \<not> headersSent (res s) then res_json sessionData s else resolved s))
       (\<lambda>error s.
          if \<not> headersSent (res s)
          then then_do (message_of error) (\<lambda>msg. sendErrorResponse 500 msg) s
          else resolved s)"

definition session_not_found :: json where
  "session_not_found = [(''success'', JBool False), (''message'', JString ''session_not_found'')]"

definition qr_not_ready :: json where
  "qr_not_ready =
     [(''success'', JBool False), (''message'', JString ''qr code not ready or already scanned'')]"

text \<open>
  \<^verbatim>\<open>if (session.qr)\<close> tests the truthiness of an optional string: an absent field and
  the empty string both fail the test.
\<close>

definition sessionQrCode :: "env \<Rightarrow> string \<Rightarrow> state \<Rightarrow> unit outcome \<times> state" where
  "sessionQrCode env sessionId =
     try_catch
       (\<lambda>s.
          if \<not> headersSent (res s)
          then (case sessions s sessionId of
                  None \<Rightarrow> res_json session_not_found s
                | Some session \<Rightarrow>
                    (case qr session of
                       Some q \<Rightarrow>
                         if q \<noteq> []
                         then res_json [(''success'', JBool True), (''qr'', JString q)] s
                         else res_json qr_not_ready s
                     | None \<Rightarrow> res_json qr_not_ready s))
          else resolved s)
       (\<lambda>error s.
          if \<not> headersSent (res s)
          then then_do (message_of error) (\<lambda>msg. sendErrorResponse 500 msg) s
          else resolved s)"

definition image_png :: "(string \<times> string) list" where
  "image_png = [(''Content-Type'', ''image/png'')]"

definition sessionQrCodeImage :: "env \<Rightarrow> string \<Rightarrow> state \<Rightarrow> unit outcome \<times> state" where
  "sessionQrCodeImage env sessionId =
     try_catch
       (\<lambda>s.
          if \<not> headersSent (res s)
          then (case sessions s sessionId of
                  None \<Rightarrow> res_json session_not_found s
                | Some session \<Rightarrow>
                    (case qr session of
                       Some q \<Rightarrow>
                         if q \<noteq> []
                         then then_do (call_qr_image env q ''png'') (\<lambda>qrImage.
                                then_do (res_writeHead 200 image_png) (\<lambda>_.
                                  res_pipe env qrImage)) s
                         else res_json qr_not_ready s
                     | None \<Rightarrow> res_json qr_not_ready s))
          else resolved s)
       (\<lambda>error s.
          if \<not> headersSent (res s)
          then then_do (message_of error) (\<lambda>msg. sendErrorResponse 500 msg) s
          else then_do (message_of error) (\<lambda>_ s.
                 if \<not> writableEnded (res s) then res_end s else resolved s) s)"

definition is_not_found :: "json \<Rightarrow> bool" where
  "is_not_found validation = (map_of validation ''message'' = Some (JString ''session_not_found''))"

definition restartSession :: "env \<Rightarrow> string \<Rightarrow> state \<Rightarrow> unit outcome \<times> state" where
  "restartSession env sessionId =
     try_catch
       (then_do (await (ValidateSession sessionId) (validateSession env sessionId))
          (\<lambda>validation s.
             if \<not> headersSent (res s)
             then if is_not_found validation
                  then res_json validation s
                  else then_do (await (ReloadSession sessionId) (reloadSession env sessionId))
                         (\<lambda>_. res_json [(''success'', JBool True),
                                         (''message'', JString ''Restarted successfully'')]) s
             else resolved s))
       (\<lambda>error s.
          if \<not> headersSent (res s)
          then then_do (message_of error) (\<lambda>msg. sendErrorResponse 500 msg) s
          else resolved s)"

definition terminateSession :: "env \<Rightarrow> string \<Rightarrow> state \<Rightarrow> unit outcome \<times> state" where
  "terminateSession env sessionId =
     try_catch
       (then_do (await (ValidateSession sessionId) (validateSession env sessionId))
          (\<lambda>validation s.
             if \<not> headersSent (res s)
             then if is_not_found validation
                  then res_json validation s
                  else then_do
                         (await (DeleteSession sessionId validation)
                            (deleteSession env sessionId validation))
                         (\<lambda>_. res_json [(''success'', JBool True),
                                         (''message'', JString ''Logged out successfully'')]) s
             else resolved s))
       (\<lambda>error s.
          if \<not> headersSent (res s)
          then then_do (message_of error) (\<lambda>msg. sendErrorResponse 500 msg) s
          else resolved s)"

definition flush_completed :: json where
  "flush_completed =
     [(''success'', JBool True), (''message'', JString ''Flush completed successfully'')]"

definition terminateInactiveSessions :: "env \<Rightarrow> state \<Rightarrow> unit outcome \<times> state" where
  "terminateInactiveSessions env =
     try_catch
       (then_do (await (FlushSessions True) (flushSessions env True))
          (\<lambda>_ s. if \<not> headersSent (res s) then res_json flush_completed s else resolved s))
       (\<lambda>error s.
          if \<not> headersSent (res s)
          then then_do (message_of error) (\<lambda>msg. sendErrorResponse 500 msg) s
          else resolved s)"

definition terminateAllSessions :: "env \<Rightarrow> state \<Rightarrow> unit outcome \<times> state" where
  "terminateAllSessions env =
     try_catch
       (then_do (await (FlushSessions False) (flushSessions env False))
          (\<lambda>_ s. if \<not> headersSent (res s) then res_json flush_completed s else resolved s))
       (\<lambda>error s.
          if \<not> headersSent (res s)
          then then_do (message_of error) (\<lambda>msg. sendErrorResponse 500 msg) s
          else resolved s)"

section \<open>The handlers of the second, instrumented copy of the controller\<close>

text \<open>
  The second source file defines \<^verbatim>\<open>startSession\<close>, \<^verbatim>\<open>statusSession\<close>,
  \<^verbatim>\<open>sessionQrCode\<close> and \<^verbatim>\<open>sessionQrCodeImage\<close> again, with logging and
  further checks. Its \<^verbatim>\<open>startSession\<close> keeps a local flag
  \<^verbatim>\<open>thisHandlerResponded\<close>, which the outer catch reads: the flag is part of
  the state the body runs in. Every catch block of this copy starts with a
  \<^verbatim>\<open>console.error\<close> whose template interpolates \<^verbatim>\<open>error.message\<close>.
\<close>

record frame = state +
  thisHandlerResponded :: bool

definition enter_frame :: "state \<Rightarrow> frame" where
  "enter_frame s =
     \<lparr>sessions = sessions s, res = res s, invoked = invoked s, thisHandlerResponded = False\<rparr>"

definition leave_frame :: "frame \<Rightarrow> state" where
  "leave_frame f = \<lparr>sessions = sessions f, res = res f, invoked = invoked f\<rparr>"

definition responded :: "frame \<Rightarrow> frame" where
  "responded f = f\<lparr>thisHandlerResponded := True\<rparr>"

definition startSession_body :: "env \<Rightarrow> string \<Rightarrow> frame \<Rightarrow> unit outcome \<times> frame" where
  "startSession_body env sessionId =
     try_catch
       (then_do (call_setupSession env sessionId) (\<lambda>setupSessionReturn f.
          if thisHandlerResponded f \<or> headersSent (res f) then resolved f
          else if \<not> success setupSessionReturn
          then (if \<not> headersSent (res f)
                then sendErrorResponse 422 (message setupSessionReturn) (responded f)
                else resolved f)
          else
            try_catch
              (then_do
                 (\<lambda>f. if client setupSessionReturn = None
                       then throw ''setupSession did not return a client object.'' f
                       else await (WaitForNestedObject (client setupSessionReturn) ''pupPage'')
                              (waitForNestedObject env (client setupSessionReturn) ''pupPage'') f)
                 (\<lambda>_ f.
                    if \<not> headersSent (res f)
                    then res_json [(''success'', JBool True),
                                   (''message'', JString (message setupSessionReturn))]
                           (responded f)
                    else resolved f))
              (\<lambda>waitError.
                 then_do (message_of waitError) (\<lambda>msg f.
                   if \<not> headersSent (res f)
                   then sendErrorResponse 500 msg (responded f)
                   else resolved f))
              f))
       (\<lambda>error.
          then_do (message_of error) (\<lambda>msg f.
            if \<not> thisHandlerResponded f \<and> \<not> headersSent (res f)
            then sendErrorResponse 500 msg (responded f)
            else resolved f))"

definition startSession_part_000 :: "env \<Rightarrow> string \<Rightarrow> state \<Rightarrow> unit outcome \<times> state" where
  "startSession_part_000 env sessionId s =
     (case startSession_body env sessionId (enter_frame s) of (v, f) \<Rightarrow> (v, leave_frame f))"

definition statusSession_part_000 :: "env \<Rightarrow> string \<Rightarrow> state \<Rightarrow> unit outcome \<times> state" where
  "statusSession_part_000 env sessionId =
     try_catch
       (then_do (await (ValidateSession sessionId) (validateSession env sessionId))
          (\<lambda>sessionData s.
             if \<not> headersSent (res s) then res_json sessionData s else resolved s))
       (\<lambda>error.
          then_do (message_of error) (\<lambda>msg s.
            if \<not> headersSent (res s) then sendErrorResponse 500 msg s else resolved s))"

definition sessionQrCode_part_000 :: "env \<Rightarrow> string \<Rightarrow> state \<Rightarrow> unit outcome \<times> state" where
  "sessionQrCode_part_000 env sessionId =
     try_catch
       (\<lambda>s.
          if \<not> headersSent (res s)
          then (case sessions s sessionId of
                  None \<Rightarrow> res_status_json 404 session_not_found s
                | Some session \<Rightarrow>
                    (case qr session of
                       Some q \<Rightarrow>
                         if q \<noteq> []
                         then res_json [(''success'', JBool True), (''qr'', JString q)] s
                         else res_status_json 200 qr_not_ready s
                     | None \<Rightarrow> res_status_json 200 qr_not_ready s))
          else resolved s)
       (\<lambda>error.
          then_do (message_of error) (\<lambda>msg s.
            if \<not> headersSent (res s) then sendErrorResponse 500 msg s else resolved s))"

definition sessionQrCodeImage_part_000 ::
  "env \<Rightarrow> string \<Rightarrow> state \<Rightarrow> unit outcome \<times> state" where
  "sessionQrCodeImage_part_000 env sessionId =
     try_catch
       (\<lambda>s.
          if headersSent (res s)
          then (if \<not> writableEnded (res s) then res_end s else resolved s)
          else (case sessions s sessionId of
                  None \<Rightarrow> res_status_json 404 session_not_found s
                | Some session \<Rightarrow>
                    (case qr session of
                       Some q \<Rightarrow>
                         if q \<noteq> []
                         then then_do (call_qr_image env q ''png'') (\<lambda>qrImage.
                                then_do (res_writeHead 200 image_png) (\<lambda>_.
                                  res_pipe env qrImage)) s
                         else res_status_json 200 qr_not_ready s
                     | None \<Rightarrow> res_status_json 200 qr_not_ready s)))
       (\<lambda>error.
          then_do (message_of error) (\<lambda>msg s.
            if \<not> headersSent (res s)
            then sendErrorResponse 500 msg s
            else if \<not> writableEnded (res s) then res_end s else resolved s))"

section \<open>Observing a handler, and sample requests\<close>

text \<open>
  \<open>only_calls s r cs\<close>: started in state \<open>s\<close>, the handler resolved without throwing and
  the calls it made on the response were exactly \<open>cs\<close>, in this order.
\<close>

definition only_calls :: "state \<Rightarrow> unit outcome \<times> state \<Rightarrow> (bool \<times> call) list \<Rightarrow> bool" where
  "only_calls s r cs = (fst r = Returns () \<and> calls (res (snd r)) = calls (res s) @ cs)"

definition new_calls :: "state \<Rightarrow> unit outcome \<times> state \<Rightarrow> (bool \<times> call) list" where
  "new_calls s r = drop (length (calls (res s))) (calls (res (snd r)))"

text \<open>The writes among a list of calls that reached the transport.\<close>

definition emitted :: "(bool \<times> call) list \<Rightarrow> call list" where
  "emitted cs = map snd (filter (\<lambda>c. \<not> fst c) cs)"

definition settle :: "'a outcome \<Rightarrow> bool \<Rightarrow> registry \<Rightarrow> 'a awaited" where
  "settle v r reg = \<lparr>settled = v, sessions_after = reg, raced = r\<rparr>"

definition connected :: json where
  "connected =
     [(''success'', JBool True), (''state'', JString ''CONNECTED''),
      (''message'', JString ''session_connected'')]"

definition sample_env :: env where
  "sample_env =
     \<lparr>setupSession = (\<lambda>sessionId reg.
        (Returns \<lparr>success = True, message = ''Session initiated successfully'',
                  client = Some 1\<rparr>,
         reg(sessionId \<mapsto> \<lparr>qr = None\<rparr>))),
      waitForNestedObject = (\<lambda>c path. settle (Returns ()) False),
      validateSession = (\<lambda>sessionId. settle (Returns connected) False),
      reloadSession = (\<lambda>sessionId. settle (Returns ()) False),
      deleteSession = (\<lambda>sessionId validation. settle (Returns ()) False),
      flushSessions = (\<lambda>onlyInactive reg. settle (Returns ()) False Map.empty),
      qr_image = (\<lambda>str ty. Returns (''png of '' @ str)),
      qr_pipe = (\<lambda>img. Streaming)\<rparr>"

definition rejected :: setup_return where
  "rejected = \<lparr>success = False, message = ''Session already exists'', client = None\<rparr>"

definition rejecting_env :: env where
  "rejecting_env = sample_env\<lparr>setupSession := (\<lambda>sessionId reg. (Returns rejected, reg))\<rparr>"

definition timing_out_env :: env where
  "timing_out_env =
     sample_env\<lparr>waitForNestedObject :=
       (\<lambda>c path. settle (Throws (Error ''Timed out waiting for nested object'')) False)\<rparr>"

text \<open>Collaborators whose promises are rejected with \<^verbatim>\<open>null\<close>.\<close>

definition null_rejecting_env :: env where
  "null_rejecting_env =
     sample_env\<lparr>validateSession := (\<lambda>sessionId. settle (Throws Null) False),
       waitForNestedObject := (\<lambda>c path. settle (Throws Null) False)\<rparr>"

definition racing_env :: env where
  "racing_env =
     sample_env\<lparr>reloadSession := (\<lambda>sessionId. settle (Returns ()) True),
       deleteSession := (\<lambda>sessionId validation. settle (Returns ()) True)\<rparr>"

definition broken_pipe_env :: env where
  "broken_pipe_env = sample_env\<lparr>qr_pipe := (\<lambda>img. Broken ''write EPIPE'' False)\<rparr>"

text \<open>A request whose response nobody has touched, and one whose response is already sent.\<close>

definition request :: "registry \<Rightarrow> state" where
  "request reg = \<lparr>sessions = reg, res = fresh_response, invoked = []\<rparr>"

definition answered_request :: "registry \<Rightarrow> state" where
  "answered_request reg =
     \<lparr>sessions = reg, res = committed_elsewhere fresh_response, invoked = []\<rparr>"

definition one_session :: "string option \<Rightarrow> registry" where
  "one_session q = [''s1'' \<mapsto> \<lparr>qr = q\<rparr>]"

definition no_sessions :: registry where
  "no_sessions = Map.empty"

section \<open>Unfolding the model\<close>

lemmas transport_defs = json_send_def writeHead_send_def end_send_def pipe_send_def
  status_set_def committed_elsewhere_def on_res_def res_json_def res_status_json_def
  res_writeHead_def res_end_def res_pipe_def sendErrorResponse_def

lemmas flow_defs = resolved_def then_do_def try_catch_def throw_def await_def
  call_setupSession_def call_qr_image_def message_of_def Let_def

lemmas sample_defs = sample_env_def rejecting_env_def rejected_def timing_out_env_def
  null_rejecting_env_def racing_env_def broken_pipe_env_def request_def answered_request_def
  one_session_def no_sessions_def fresh_response_def settle_def connected_def

section \<open>startSession: the setup-failure and readiness paths\<close>

text \<open>
  C3. Whenever \<^verbatim>\<open>setupSession(sessionId)\<close> returns an object whose
  \<^verbatim>\<open>success\<close> is false, \<^verbatim>\<open>startSession\<close> resolves after exactly one call on the
  response, the status-422 error write carrying that object's message (it reaches the
  transport when the headers were not sent before), and \<^verbatim>\<open>setupSession\<close> is the only
  collaborator it has invoked: \<^verbatim>\<open>waitForNestedObject\<close> is never called.
\<close>

theorem startSession_setup_failure:
  assumes "setupSession env sessionId (sessions s) = (Returns ret, reg)"
    and "\<not> success ret"
  shows "only_calls s (startSession env sessionId s)
           [(headersSent (res s), Json 422 (error_payload (message ret)))]
       \<and> invoked (snd (startSession env sessionId s)) = invoked s @ [SetupSession sessionId]
       \<and> (\<forall>c path. WaitForNestedObject c path
            \<notin> set (drop (length (invoked s)) (invoked (snd (startSession env sessionId s)))))"
  using assms
  by (simp add: startSession_def only_calls_def transport_defs flow_defs)

theorem startSession_setup_failure_witness:
  "setupSession rejecting_env ''s1'' (sessions (request (one_session None)))
     = (Returns rejected, one_session None)
   \<and> \<not> success rejected
   \<and> only_calls (request (one_session None))
        (startSession rejecting_env ''s1'' (request (one_session None)))
        [(False, Json 422 (error_payload ''Session already exists''))]
   \<and> invoked (snd (startSession rejecting_env ''s1'' (request (one_session None))))
        = [SetupSession ''s1'']"
  using startSession_setup_failure
          [of rejecting_env "''s1''" "request (one_session None)" rejected "one_session None"]
  by (simp add: sample_defs)

text \<open>
  C4. When \<^verbatim>\<open>setupSession\<close> succeeds and the headers are not sent while the handler
  waits, the response follows the outcome of
  \<^verbatim>\<open>waitForNestedObject(client, 'pupPage')\<close>: if the wait resolves, the one call on
  the response is the status-200 write of \<^verbatim>\<open>{success:true, message}\<close> with
  \<^verbatim>\<open>setupSession\<close>'s message; if it rejects, the one call is the status-500 error write
  carrying the rejection's message unchanged.
\<close>

theorem startSession_follows_wait:
  assumes "setupSession env sessionId (sessions s) = (Returns ret, reg)"
    and "success ret"
    and "\<not> headersSent (res s)"
    and "statusCode (res s) = 200"
    and "\<not> raced (waitForNestedObject env (client ret) ''pupPage'' reg)"
  shows "(settled (waitForNestedObject env (client ret) ''pupPage'' reg) = Returns () \<longrightarrow>
            only_calls s (startSession env sessionId s)
              [(False, Json 200 [(''success'', JBool True),
                                 (''message'', JString (message ret))])])
       \<and> (\<forall>e. settled (waitForNestedObject env (client ret) ''pupPage'' reg) = Throws (Error e) \<longrightarrow>
            only_calls s (startSession env sessionId s)
              [(False, Json 500 (error_payload e))])"
  using assms
  by (simp add: startSession_def only_calls_def transport_defs flow_defs)

theorem startSession_follows_wait_witness:
  "only_calls (request Map.empty) (startSession sample_env ''s1'' (request Map.empty))
     [(False, Json 200 [(''success'', JBool True),
                        (''message'', JString ''Session initiated successfully'')])]
   \<and> only_calls (request Map.empty) (startSession timing_out_env ''s1'' (request Map.empty))
        [(False, Json 500 (error_payload ''Timed out waiting for nested object''))]"
  using startSession_follows_wait
          [of sample_env "''s1''" "request Map.empty"
              "\<lparr>success = True, message = ''Session initiated successfully'', client = Some 1\<rparr>"
              "[''s1'' \<mapsto> \<lparr>qr = None\<rparr>]"]
        startSession_follows_wait
          [of timing_out_env "''s1''" "request Map.empty"
              "\<lparr>success = True, message = ''Session initiated successfully'', client = Some 1\<rparr>"
              "[''s1'' \<mapsto> \<lparr>qr = None\<rparr>]"]
  by (simp add: sample_defs)

section \<open>The QR endpoints\<close>

text \<open>
  C5, as amended. For every request to the QR JSON endpoint with headers not yet sent: an
  unknown session id is answered \<^verbatim>\<open>{success:false, message:"session_not_found"}\<close>, with
  status 200 by \<^verbatim>\<open>controllers/sessionController.js\<close> and with status 404 by the second
  copy of the handler; a session with a non-empty \<^verbatim>\<open>qr\<close> is answered
  \<^verbatim>\<open>{success:true, qr}\<close> with status 200 by both; a session without a \<^verbatim>\<open>qr\<close> is
  answered \<^verbatim>\<open>{success:false, message:"qr code not ready or already scanned"}\<close> with
  status 200 by both.
\<close>

theorem sessionQrCode_answers:
  assumes "\<not> headersSent (res s)" and "statusCode (res s) = 200"
  shows "(sessions s sessionId = None \<longrightarrow>
            only_calls s (sessionQrCode env sessionId s)
              [(False, Json 200 session_not_found)]
          \<and> only_calls s (sessionQrCode_part_000 env sessionId s)
              [(False, Json 404 session_not_found)])
       \<and> (\<forall>session q. sessions s sessionId = Some session \<and> qr session = Some q \<and> q \<noteq> [] \<longrightarrow>
            only_calls s (sessionQrCode env sessionId s)
              [(False, Json 200 [(''success'', JBool True), (''qr'', JString q)])]
          \<and> only_calls s (sessionQrCode_part_000 env sessionId s)
              [(False, Json 200 [(''success'', JBool True), (''qr'', JString q)])])
       \<and> (\<forall>session. sessions s sessionId = Some session \<and> qr session = None \<longrightarrow>
            only_calls s (sessionQrCode env sessionId s) [(False, Json 200 qr_not_ready)]
          \<and> only_calls s (sessionQrCode_part_000 env sessionId s)
              [(False, Json 200 qr_not_ready)])"
  using assms
  by (simp add: sessionQrCode_def sessionQrCode_part_000_def only_calls_def
        transport_defs flow_defs)

theorem sessionQrCode_answers_witness:
  "only_calls (request no_sessions) (sessionQrCode sample_env ''s1'' (request no_sessions))
     [(False, Json 200 session_not_found)]
   \<and> only_calls (request no_sessions)
        (sessionQrCode_part_000 sample_env ''s1'' (request no_sessions))
        [(False, Json 404 session_not_found)]
   \<and> only_calls (request (one_session (Some ''XYZ'')))
        (sessionQrCode sample_env ''s1'' (request (one_session (Some ''XYZ''))))
        [(False, Json 200 [(''success'', JBool True), (''qr'', JString ''XYZ'')])]
   \<and> only_calls (request (one_session None))
        (sessionQrCode sample_env ''s1'' (request (one_session None)))
        [(False, Json 200 qr_not_ready)]"
  using sessionQrCode_answers [of "request no_sessions" "''s1''" sample_env]
        sessionQrCode_answers [of "request (one_session (Some ''XYZ''))" "''s1''" sample_env]
        sessionQrCode_answers [of "request (one_session None)" "''s1''" sample_env]
  by (simp add: sample_defs)

text \<open>
  The claim as first stated gives status 200 to the not-found answer of every
  \<^verbatim>\<open>sessionQrCode\<close>; the second copy of the handler answers an unknown id with 404.
\<close>

theorem sessionQrCode_part_000_not_found_is_404:
  "new_calls (request no_sessions)
     (sessionQrCode_part_000 sample_env ''s1'' (request no_sessions))
     = [(False, Json 404 session_not_found)]
   \<and> new_calls (request no_sessions)
        (sessionQrCode_part_000 sample_env ''s1'' (request no_sessions))
     \<noteq> [(False, Json 200 session_not_found)]"
  by (simp add: sessionQrCode_part_000_def new_calls_def transport_defs flow_defs sample_defs)

text \<open>
  C6. When the image handler has committed the \<^verbatim>\<open>image/png\<close> headers and the pipe then
  raises, the handler (in both copies) resolves having made no JSON write at all: after
  \<^verbatim>\<open>writeHead\<close> and \<^verbatim>\<open>pipe\<close> its only further call on the response is
  \<^verbatim>\<open>end()\<close>, made once if the stream was not yet ended and not at all if it was.
  (The call of \<^verbatim>\<open>pipe\<close> is the only statement the handler runs after
  \<^verbatim>\<open>writeHead\<close>, so it is the only place where such an error can arise.)
\<close>

theorem sessionQrCodeImage_error_after_headers:
  assumes "\<not> headersSent (res s)"
    and "sessions s sessionId = Some session"
    and "qr session = Some q"
    and "q \<noteq> []"
    and "qr_image env q ''png'' = Returns img"
    and "qr_pipe env img = Broken msg ended"
  shows "only_calls s (sessionQrCodeImage env sessionId s)
           ([(False, WriteHead 200 image_png), (True, Pipe img)]
              @ (if ended then [] else [(True, End)]))
       \<and> only_calls s (sessionQrCodeImage_part_000 env sessionId s)
           ([(False, WriteHead 200 image_png), (True, Pipe img)]
              @ (if ended then [] else [(True, End)]))
       \<and> (\<forall>sent code body.
            (sent, Json code body) \<notin> set (new_calls s (sessionQrCodeImage env sessionId s))
          \<and> (sent, Json code body)
               \<notin> set (new_calls s (sessionQrCodeImage_part_000 env sessionId s)))"
  using assms
  by (simp add: sessionQrCodeImage_def sessionQrCodeImage_part_000_def only_calls_def
        new_calls_def transport_defs flow_defs)

theorem sessionQrCodeImage_error_after_headers_witness:
  "only_calls (request (one_session (Some ''XYZ'')))
     (sessionQrCodeImage broken_pipe_env ''s1'' (request (one_session (Some ''XYZ''))))
     [(False, WriteHead 200 image_png), (True, Pipe ''png of XYZ''), (True, End)]
   \<and> only_calls (request (one_session (Some ''XYZ'')))
        (sessionQrCodeImage_part_000 broken_pipe_env ''s1''
           (request (one_session (Some ''XYZ''))))
        [(False, WriteHead 200 image_png), (True, Pipe ''png of XYZ''), (True, End)]"
  using sessionQrCodeImage_error_after_headers
          [of "request (one_session (Some ''XYZ''))" "''s1''" "\<lparr>qr = Some ''XYZ''\<rparr>" "''XYZ''"
              broken_pipe_env "''png of XYZ''" "''write EPIPE''" False]
  by (simp add: sample_defs)

text \<open>
  C10. A session whose \<^verbatim>\<open>qr\<close> field holds the empty string is treated as one with no
  \<^verbatim>\<open>qr\<close>: with headers not yet sent, \<^verbatim>\<open>sessionQrCode\<close> and
  \<^verbatim>\<open>sessionQrCodeImage\<close> each make the single write
  \<^verbatim>\<open>{success:false, message:"qr code not ready or already scanned"}\<close>, the image
  handler never calls the encoder, and the response is the one the same request gets when
  the field is absent.
\<close>

theorem empty_qr_is_not_ready:
  assumes "sessions s sessionId = Some session"
    and "qr session = Some []"
    and "\<not> headersSent (res s)"
    and "statusCode (res s) = 200"
  shows "only_calls s (sessionQrCode env sessionId s) [(False, Json 200 qr_not_ready)]
       \<and> only_calls s (sessionQrCodeImage env sessionId s) [(False, Json 200 qr_not_ready)]
       \<and> invoked (snd (sessionQrCodeImage env sessionId s)) = invoked s
       \<and> res (snd (sessionQrCode env sessionId s))
           = res (snd (sessionQrCode env sessionId
                         (s\<lparr>sessions := (sessions s)(sessionId \<mapsto> session\<lparr>qr := None\<rparr>)\<rparr>)))
       \<and> res (snd (sessionQrCodeImage env sessionId s))
           = res (snd (sessionQrCodeImage env sessionId
                         (s\<lparr>sessions := (sessions s)(sessionId \<mapsto> session\<lparr>qr := None\<rparr>)\<rparr>)))"
  using assms
  by (simp add: sessionQrCode_def sessionQrCodeImage_def only_calls_def
        transport_defs flow_defs)

theorem empty_qr_is_not_ready_witness:
  "only_calls (request (one_session (Some [])))
     (sessionQrCode sample_env ''s1'' (request (one_session (Some []))))
     [(False, Json 200 qr_not_ready)]
   \<and> only_calls (request (one_session (Some [])))
        (sessionQrCodeImage sample_env ''s1'' (request (one_session (Some []))))
        [(False, Json 200 qr_not_ready)]
   \<and> invoked (snd (sessionQrCodeImage sample_env ''s1'' (request (one_session (Some [])))))
        = []"
  using empty_qr_is_not_ready
          [of "request (one_session (Some []))" "''s1''" "\<lparr>qr = Some []\<rparr>" sample_env]
  by (simp add: sample_defs)

text \<open>
  C9, as amended. On a fresh response the two copies of \<^verbatim>\<open>sessionQrCode\<close> and of
  \<^verbatim>\<open>sessionQrCodeImage\<close> behave identically whenever the session id is in the
  registry. For an unknown id they send the same body
  \<^verbatim>\<open>{success:false, message:"session_not_found"}\<close>, with status 200 in
  \<^verbatim>\<open>controllers/sessionController.js\<close> and with status 404 in the second copy.
\<close>

theorem qr_handlers_versions_agree:
  assumes "res s = fresh_response"
  shows "(sessions s sessionId \<noteq> None \<longrightarrow>
            sessionQrCode env sessionId s = sessionQrCode_part_000 env sessionId s
          \<and> sessionQrCodeImage env sessionId s = sessionQrCodeImage_part_000 env sessionId s)
       \<and> (sessions s sessionId = None \<longrightarrow>
            only_calls s (sessionQrCode env sessionId s)
              [(False, Json 200 session_not_found)]
          \<and> only_calls s (sessionQrCodeImage env sessionId s)
              [(False, Json 200 session_not_found)]
          \<and> only_calls s (sessionQrCode_part_000 env sessionId s)
              [(False, Json 404 session_not_found)]
          \<and> only_calls s (sessionQrCodeImage_part_000 env sessionId s)
              [(False, Json 404 session_not_found)])"
  using assms
  by (auto simp: sessionQrCode_def sessionQrCode_part_000_def sessionQrCodeImage_def
        sessionQrCodeImage_part_000_def only_calls_def fresh_response_def
        transport_defs flow_defs
        split: option.splits outcome.splits prod.splits pipe_result.splits thrown.splits)

theorem qr_handlers_versions_agree_witness:
  "sessionQrCode sample_env ''s1'' (request (one_session (Some ''XYZ'')))
     = sessionQrCode_part_000 sample_env ''s1'' (request (one_session (Some ''XYZ'')))
   \<and> sessionQrCodeImage sample_env ''s1'' (request (one_session (Some ''XYZ'')))
     = sessionQrCodeImage_part_000 sample_env ''s1'' (request (one_session (Some ''XYZ'')))
   \<and> only_calls (request no_sessions)
        (sessionQrCodeImage sample_env ''s1'' (request no_sessions))
        [(False, Json 200 session_not_found)]
   \<and> only_calls (request no_sessions)
        (sessionQrCodeImage_part_000 sample_env ''s1'' (request no_sessions))
        [(False, Json 404 session_not_found)]"
  using qr_handlers_versions_agree [of "request (one_session (Some ''XYZ''))" "''s1''" sample_env]
        qr_handlers_versions_agree [of "request no_sessions" "''s1''" sample_env]
  by (simp add: request_def one_session_def no_sessions_def)

text \<open>
  The claim as first stated makes the two copies send the same status code for every
  registry; on the empty registry the writes that reach the transport differ in it.
\<close>

theorem qr_handlers_versions_differ_on_unknown_id:
  "emitted (new_calls (request no_sessions)
              (sessionQrCode sample_env ''s1'' (request no_sessions)))
     = [Json 200 session_not_found]
   \<and> emitted (new_calls (request no_sessions)
                (sessionQrCode_part_000 sample_env ''s1'' (request no_sessions)))
     = [Json 404 session_not_found]
   \<and> emitted (new_calls (request no_sessions)
                (sessionQrCode sample_env ''s1'' (request no_sessions)))
     \<noteq> emitted (new_calls (request no_sessions)
                  (sessionQrCode_part_000 sample_env ''s1'' (request no_sessions)))"
  by (simp add: sessionQrCode_def sessionQrCode_part_000_def new_calls_def emitted_def
        transport_defs flow_defs sample_defs)

section \<open>The bulk-terminate endpoints\<close>

text \<open>
  C8. Whatever the session registry holds, when \<^verbatim>\<open>flushSessions(true)\<close>
  (respectively \<^verbatim>\<open>flushSessions(false)\<close>) completes without an exception and the
  response has not been sent by then, \<^verbatim>\<open>terminateInactiveSessions\<close> (respectively
  \<^verbatim>\<open>terminateAllSessions\<close>) makes exactly one write: status 200 with
  \<^verbatim>\<open>{success:true, message:"Flush completed successfully"}\<close>.
\<close>

theorem flush_handlers_same_payload:
  assumes "\<not> headersSent (res s)" and "statusCode (res s) = 200"
  shows "(settled (flushSessions env True (sessions s)) = Returns ()
          \<and> \<not> raced (flushSessions env True (sessions s)) \<longrightarrow>
            only_calls s (terminateInactiveSessions env s) [(False, Json 200 flush_completed)])
       \<and> (settled (flushSessions env False (sessions s)) = Returns ()
          \<and> \<not> raced (flushSessions env False (sessions s)) \<longrightarrow>
            only_calls s (terminateAllSessions env s) [(False, Json 200 flush_completed)])"
  using assms
  by (simp add: terminateInactiveSessions_def terminateAllSessions_def only_calls_def
        transport_defs flow_defs)

theorem flush_handlers_same_payload_witness:
  "only_calls (request no_sessions) (terminateInactiveSessions sample_env (request no_sessions))
     [(False, Json 200 flush_completed)]
   \<and> only_calls (request no_sessions) (terminateAllSessions sample_env (request no_sessions))
        [(False, Json 200 flush_completed)]
   \<and> only_calls (request (one_session None))
        (terminateInactiveSessions sample_env (request (one_session None)))
        [(False, Json 200 flush_completed)]
   \<and> only_calls (request (one_session None))
        (terminateAllSessions sample_env (request (one_session None)))
        [(False, Json 200 flush_completed)]"
  using flush_handlers_same_payload [of "request no_sessions" sample_env]
        flush_handlers_same_payload [of "request (one_session None)" sample_env]
  by (simp add: sample_defs)

section \<open>Faults at the handler boundary\<close>

lemmas handler_defs = startSession_def statusSession_def sessionQrCode_def
  sessionQrCodeImage_def restartSession_def terminateSession_def
  terminateInactiveSessions_def terminateAllSessions_def

lemmas part_000_defs = startSession_part_000_def startSession_body_def enter_frame_def
  leave_frame_def responded_def statusSession_part_000_def sessionQrCode_part_000_def
  sessionQrCodeImage_part_000_def

text \<open>
  A collaborator that throws an \<^verbatim>\<open>Error\<close> while the headers are not sent is answered
  with exactly one call on the response, the status-500 error write carrying the message.
\<close>

lemma validateSession_fault:
  assumes "\<not> headersSent (res s)"
    and "settled (validateSession env sessionId (sessions s)) = Throws (Error e)"
    and "\<not> raced (validateSession env sessionId (sessions s))"
  shows "only_calls s (statusSession env sessionId s) [(False, Json 500 (error_payload e))]"
    and "only_calls s (restartSession env sessionId s) [(False, Json 500 (error_payload e))]"
    and "only_calls s (terminateSession env sessionId s) [(False, Json 500 (error_payload e))]"
  using assms
  by (simp_all add: handler_defs only_calls_def transport_defs flow_defs)

lemma reloadSession_fault:
  assumes "\<not> headersSent (res s)"
    and "settled (validateSession env sessionId (sessions s)) = Returns v"
    and "\<not> raced (validateSession env sessionId (sessions s))"
    and "\<not> is_not_found v"
    and "settled (reloadSession env sessionId
                   (sessions_after (validateSession env sessionId (sessions s))))
           = Throws (Error e)"
    and "\<not> raced (reloadSession env sessionId
                   (sessions_after (validateSession env sessionId (sessions s))))"
  shows "only_calls s (restartSession env sessionId s) [(False, Json 500 (error_payload e))]"
  using assms
  by (simp add: handler_defs only_calls_def transport_defs flow_defs)

lemma deleteSession_fault:
  assumes "\<not> headersSent (res s)"
    and "settled (validateSession env sessionId (sessions s)) = Returns v"
    and "\<not> raced (validateSession env sessionId (sessions s))"
    and "\<not> is_not_found v"
    and "settled (deleteSession env sessionId v
                   (sessions_after (validateSession env sessionId (sessions s))))
           = Throws (Error e)"
    and "\<not> raced (deleteSession env sessionId v
                   (sessions_after (validateSession env sessionId (sessions s))))"
  shows "only_calls s (terminateSession env sessionId s) [(False, Json 500 (error_payload e))]"
  using assms
  by (simp add: handler_defs only_calls_def transport_defs flow_defs)

lemma flushSessions_fault:
  assumes "\<not> headersSent (res s)"
  shows "settled (flushSessions env True (sessions s)) = Throws (Error e)
         \<Longrightarrow> \<not> raced (flushSessions env True (sessions s))
         \<Longrightarrow> only_calls s (terminateInactiveSessions env s)
               [(False, Json 500 (error_payload e))]"
    and "settled (flushSessions env False (sessions s)) = Throws (Error e)
         \<Longrightarrow> \<not> raced (flushSessions env False (sessions s))
         \<Longrightarrow> only_calls s (terminateAllSessions env s)
               [(False, Json 500 (error_payload e))]"
  using assms
  by (simp_all add: handler_defs only_calls_def transport_defs flow_defs)

lemma setupSession_fault:
  assumes "\<not> headersSent (res s)"
    and "fst (setupSession env sessionId (sessions s)) = Throws (Error e)"
  shows "only_calls s (startSession env sessionId s) [(False, Json 500 (error_payload e))]"
  using assms
  by (cases "setupSession env sessionId (sessions s)")
     (simp add: handler_defs only_calls_def transport_defs flow_defs)

lemma waitForNestedObject_fault:
  assumes "\<not> headersSent (res s)"
    and "setupSession env sessionId (sessions s) = (Returns ret, reg)"
    and "success ret"
    and "settled (waitForNestedObject env (client ret) ''pupPage'' reg) = Throws (Error e)"
    and "\<not> raced (waitForNestedObject env (client ret) ''pupPage'' reg)"
  shows "only_calls s (startSession env sessionId s) [(False, Json 500 (error_payload e))]"
  using assms
  by (simp add: handler_defs only_calls_def transport_defs flow_defs)

text \<open>When the read of \<^verbatim>\<open>error.message\<close> succeeds and when it raises.\<close>

lemma message_read_cases:
  "message_read t = Returns m \<longleftrightarrow> t = Error m"
  "message_read t = Throws e \<longleftrightarrow>
     (t = Null \<and> e = Error ''Cannot read properties of null (reading 'message')'')
   \<or> (t = Undefined
        \<and> e = Error ''Cannot read properties of undefined (reading 'message')'')"
  by (cases t; auto)+

text \<open>
  A handler resolves whenever none of the collaborator calls it makes throws
  \<^verbatim>\<open>null\<close> or \<^verbatim>\<open>undefined\<close>. For \<^verbatim>\<open>startSession\<close> only
  \<^verbatim>\<open>setupSession\<close> matters: a \<^verbatim>\<open>TypeError\<close> raised in the inner catch is an
  \<^verbatim>\<open>Error\<close> and is handled by the outer one.
\<close>

lemma startSession_resolves:
  assumes "\<not> rejects_nullish (fst (setupSession env sessionId (sessions s)))"
  shows "fst (startSession env sessionId s) = Returns ()"
  using assms
  by (cases "setupSession env sessionId (sessions s)")
     (auto simp: handler_defs rejects_nullish_def transport_defs flow_defs message_read_cases
      split: outcome.splits prod.splits)

lemma statusSession_resolves:
  assumes "\<not> rejects_nullish (settled (validateSession env sessionId (sessions s)))"
  shows "fst (statusSession env sessionId s) = Returns ()"
  using assms
  by (auto simp: handler_defs rejects_nullish_def transport_defs flow_defs message_read_cases
      split: outcome.splits prod.splits)

lemma sessionQrCode_resolves:
  "fst (sessionQrCode env sessionId s) = Returns ()"
  by (auto simp: handler_defs transport_defs flow_defs message_read_cases
      split: outcome.splits prod.splits option.splits)

lemma sessionQrCodeImage_resolves:
  assumes "\<forall>q. \<not> rejects_nullish (qr_image env q ''png'')"
  shows "fst (sessionQrCodeImage env sessionId s) = Returns ()"
  using assms
  by (auto simp: handler_defs rejects_nullish_def transport_defs flow_defs message_read_cases
      split: outcome.splits prod.splits option.splits pipe_result.splits)

lemma restartSession_resolves:
  assumes "\<not> rejects_nullish (settled (validateSession env sessionId (sessions s)))"
    and "\<forall>reg. \<not> rejects_nullish (settled (reloadSession env sessionId reg))"
  shows "fst (restartSession env sessionId s) = Returns ()"
  using assms
  by (auto simp: handler_defs rejects_nullish_def transport_defs flow_defs message_read_cases
      split: outcome.splits prod.splits)

lemma terminateSession_resolves:
  assumes "\<not> rejects_nullish (settled (validateSession env sessionId (sessions s)))"
    and "\<forall>v reg. \<not> rejects_nullish (settled (deleteSession env sessionId v reg))"
  shows "fst (terminateSession env sessionId s) = Returns ()"
  using assms
  by (auto simp: handler_defs rejects_nullish_def transport_defs flow_defs message_read_cases
      split: outcome.splits prod.splits)

lemma flush_handlers_resolve:
  "\<not> rejects_nullish (settled (flushSessions env True (sessions s)))
     \<Longrightarrow> fst (terminateInactiveSessions env s) = Returns ()"
  "\<not> rejects_nullish (settled (flushSessions env False (sessions s)))
     \<Longrightarrow> fst (terminateAllSessions env s) = Returns ()"
  by (auto simp: handler_defs rejects_nullish_def transport_defs flow_defs message_read_cases
      split: outcome.splits prod.splits)

text \<open>
  A wait rejected with \<^verbatim>\<open>null\<close> is still answered by \<^verbatim>\<open>startSession\<close>: the
  \<^verbatim>\<open>TypeError\<close> of the inner catch reaches the outer catch, which sends its message.
\<close>

lemma startSession_wait_rejected_with_null:
  assumes "\<not> headersSent (res s)"
    and "setupSession env sessionId (sessions s) = (Returns ret, reg)"
    and "success ret"
    and "settled (waitForNestedObject env (client ret) ''pupPage'' reg) = Throws Null"
    and "\<not> raced (waitForNestedObject env (client ret) ''pupPage'' reg)"
  shows "only_calls s (startSession env sessionId s)
           [(False, Json 500
               (error_payload ''Cannot read properties of null (reading 'message')''))]"
  using assms
  by (simp add: handler_defs only_calls_def transport_defs flow_defs)

text \<open>
  In every other catch block nothing encloses the read of \<^verbatim>\<open>error.message\<close>: with the
  headers not sent, a \<^verbatim>\<open>validateSession\<close> rejected with \<^verbatim>\<open>null\<close> makes the handler
  reject, and no call is made on the response.
\<close>

lemma validateSession_rejected_with_null:
  assumes "\<not> headersSent (res s)"
    and "settled (validateSession env sessionId (sessions s)) = Throws Null"
    and "\<not> raced (validateSession env sessionId (sessions s))"
  shows "statusSession env sessionId s
           = (Throws (Error ''Cannot read properties of null (reading 'message')''),
              s\<lparr>sessions := sessions_after (validateSession env sessionId (sessions s)),
                invoked := invoked s @ [ValidateSession sessionId]\<rparr>)"
  using assms
  by (simp add: handler_defs transport_defs flow_defs)

text \<open>
  C7. The claim asks that every exported handler resolve without throwing, whatever
  exception a collaborator raises. The catch blocks read \<^verbatim>\<open>error.message\<close> of the
  caught value; when \<^verbatim>\<open>validateSession\<close> rejects with \<^verbatim>\<open>null\<close> on a fresh
  response, that read raises a \<^verbatim>\<open>TypeError\<close> inside the catch block of
  \<^verbatim>\<open>statusSession\<close> and of \<^verbatim>\<open>terminateSession\<close>, the handler rejects with it,
  and no response is written.
\<close>

theorem null_rejection_escapes_handler:
  "fst (statusSession null_rejecting_env ''s1'' (request (one_session None)))
     = Throws (Error ''Cannot read properties of null (reading 'message')'')
   \<and> new_calls (request (one_session None))
        (statusSession null_rejecting_env ''s1'' (request (one_session None)))
     = []
   \<and> fst (terminateSession null_rejecting_env ''s1'' (request (one_session None)))
     = Throws (Error ''Cannot read properties of null (reading 'message')'')
   \<and> new_calls (request (one_session None))
        (terminateSession null_rejecting_env ''s1'' (request (one_session None)))
     = []"
  by (simp add: statusSession_def terminateSession_def new_calls_def
        transport_defs flow_defs sample_defs)

section \<open>The guard before each write\<close>

lemma calls_grow:
  "calls (res (snd (startSession env sessionId s)))
     = calls (res s) @ new_calls s (startSession env sessionId s)"
  "calls (res (snd (startSession_part_000 env sessionId s)))
     = calls (res s) @ new_calls s (startSession_part_000 env sessionId s)"
  "calls (res (snd (restartSession env sessionId s)))
     = calls (res s) @ new_calls s (restartSession env sessionId s)"
  "calls (res (snd (terminateSession env sessionId s)))
     = calls (res s) @ new_calls s (terminateSession env sessionId s)"
  by (auto simp: handler_defs part_000_defs new_calls_def transport_defs flow_defs message_read_cases
      split: outcome.splits prod.splits)

text \<open>
  The second copy of \<^verbatim>\<open>startSession\<close> tests \<^verbatim>\<open>res.headersSent\<close> before each of
  its writes: it makes at most one call on the response, and only with the flag false.
\<close>

lemma startSession_part_000_guarded:
  "length (new_calls s (startSession_part_000 env sessionId s)) \<le> 1
   \<and> (\<forall>c \<in> set (new_calls s (startSession_part_000 env sessionId s)). \<not> fst c)"
  by (auto simp: part_000_defs new_calls_def transport_defs flow_defs message_read_cases
      split: outcome.splits prod.splits)

text \<open>
  \<^verbatim>\<open>startSession\<close> of \<^verbatim>\<open>controllers/sessionController.js\<close>: at most one write reaches
  the transport, and every call is made with the flag false when the headers were not sent
  at entry.
\<close>

lemma startSession_emits_at_most_once:
  "length (emitted (new_calls s (startSession env sessionId s))) \<le> 1"
  by (auto simp: handler_defs new_calls_def emitted_def transport_defs flow_defs message_read_cases
      split: outcome.splits prod.splits)

lemma startSession_guarded_when_fresh:
  "\<not> headersSent (res s) \<Longrightarrow>
     length (new_calls s (startSession env sessionId s)) \<le> 1
     \<and> (\<forall>c \<in> set (new_calls s (startSession env sessionId s)). \<not> fst c)"
  by (auto simp: handler_defs new_calls_def transport_defs flow_defs message_read_cases
      split: outcome.splits prod.splits)

text \<open>
  C1. The claim asks that every write site of \<^verbatim>\<open>startSession\<close> be entered only when
  \<^verbatim>\<open>res.headersSent\<close> is false. The status-422 write of
  \<^verbatim>\<open>controllers/sessionController.js\<close> is made without the test: on a response that is
  already sent, with \<^verbatim>\<open>setupSession\<close> reporting failure, the handler calls
  \<^verbatim>\<open>sendErrorResponse(res, 422, ...)\<close> while the flag is true. The second copy of the
  handler makes no call on the response at the same input.
\<close>

theorem startSession_422_write_not_guarded:
  "new_calls (answered_request no_sessions)
     (startSession rejecting_env ''s1'' (answered_request no_sessions))
     = [(True, Json 422 (error_payload ''Session already exists''))]
   \<and> new_calls (answered_request no_sessions)
        (startSession_part_000 rejecting_env ''s1'' (answered_request no_sessions))
     = []"
  by (simp add: startSession_def startSession_part_000_def startSession_body_def
        enter_frame_def leave_frame_def responded_def new_calls_def
        transport_defs flow_defs sample_defs)

text \<open>
  C2. The claim asks that the success write of \<^verbatim>\<open>restartSession\<close> and
  \<^verbatim>\<open>terminateSession\<close> be made only when \<^verbatim>\<open>res.headersSent\<close> is false at that
  moment. Both handlers test the flag before they await \<^verbatim>\<open>reloadSession\<close> or
  \<^verbatim>\<open>deleteSession\<close> and not again afterwards: when the response is sent by another
  party during that wait, \<^verbatim>\<open>res.json\<close> is called while the flag is true.
\<close>

theorem restart_terminate_write_after_await_not_guarded:
  "new_calls (request (one_session None))
     (restartSession racing_env ''s1'' (request (one_session None)))
     = [(True, Json 200 [(''success'', JBool True),
                         (''message'', JString ''Restarted successfully'')])]
   \<and> new_calls (request (one_session None))
        (terminateSession racing_env ''s1'' (request (one_session None)))
     = [(True, Json 200 [(''success'', JBool True),
                         (''message'', JString ''Logged out successfully'')])]"
  by (simp add: restartSession_def terminateSession_def is_not_found_def new_calls_def
        transport_defs flow_defs sample_defs)

text \<open>
  Without interference during the second wait the two handlers do write under the guard:
  every call they make on the response is made with the flag false.
\<close>

lemma restart_terminate_guarded_without_race:
  assumes "\<forall>reg. \<not> raced (reloadSession env sessionId reg)"
    and "\<forall>v reg. \<not> raced (deleteSession env sessionId v reg)"
  shows "\<forall>c \<in> set (new_calls s (restartSession env sessionId s)). \<not> fst c"
    and "\<forall>c \<in> set (new_calls s (terminateSession env sessionId s)). \<not> fst c"
  using assms
  by (auto simp: handler_defs new_calls_def transport_defs flow_defs message_read_cases
      split: outcome.splits prod.splits if_splits)

end
